theory Spec2Isabelle
  imports Complex_Main
begin

section \<open>JavaScript values used by the runtime\<close>

text \<open>
  A JavaScript string is truthy exactly when it is not empty; \<open>undefined\<close> and \<open>null\<close>
  are \<open>None\<close>.
\<close>

definition truthy :: "string option \<Rightarrow> bool" where
  "truthy v = (case v of None \<Rightarrow> False | Some s \<Rightarrow> s \<noteq> [])"

text \<open>\<open>a ?? b\<close>: the right operand is used only when the left one is nullish.\<close>

definition nullish :: "'a option \<Rightarrow> 'a option \<Rightarrow> 'a option" where
  "nullish a b = (case a of Some v \<Rightarrow> Some v | None \<Rightarrow> b)"

text \<open>\<open>String.prototype.includes\<close>: a contiguous occurrence of the needle.\<close>

fun str_includes :: "string \<Rightarrow> string \<Rightarrow> bool" where
  "str_includes [] needle = (needle = [])"
| "str_includes (c # cs) needle =
     (take (length needle) (c # cs) = needle \<or> str_includes cs needle)"

text \<open>\<open>String(n)\<close> for a non-negative integer \<open>n\<close>: its decimal digits.\<close>

definition digit_char :: "nat \<Rightarrow> char" where
  "digit_char d = ''0123456789'' ! d"

fun js_String :: "nat \<Rightarrow> string" where
  "js_String n =
     (if 10 \<le> n then js_String (n div 10) @ [digit_char (n mod 10)] else [digit_char n])"

declare js_String.simps [simp del]

text \<open>
  The platform \<open>URL\<close> class for a URL with a host, by its components: \<open>port\<close> is
  \<open>None\<close> where the JavaScript property is the empty string; \<open>search\<close> and \<open>hash\<close>
  carry their leading \<open>?\<close> and \<open>#\<close>; \<open>username\<close> and \<open>password\<close> are empty when
  the URL has no credentials.
\<close>

record url =
  protocol :: string
  username :: string
  password :: string
  hostname :: string
  port :: "nat option"
  pathname :: string
  search :: string
  hash :: string

definition host_of :: "url \<Rightarrow> string" where
  "host_of u = hostname u @ (case port u of None \<Rightarrow> [] | Some p \<Rightarrow> '':'' @ js_String p)"

text \<open>The origin leaves the credentials out.\<close>

definition origin :: "url \<Rightarrow> string" where
  "origin u = protocol u @ ''//'' @ host_of u"





section \<open>Server definitions (config.ts)\<close>

datatype source_kind = Local | Import

record server_source =
  kind :: source_kind
  path :: string

datatype command_spec =
    Http (http_url: url) (http_headers: "(string \<times> string) list option")
  | Stdio (stdio_command: string) (stdio_args: "string list") (stdio_cwd: string)

fun is_http :: "command_spec \<Rightarrow> bool" where
  "is_http (Http _ _) = True"
| "is_http (Stdio _ _ _) = False"

datatype server_lifecycle = KeepAlive "nat option" | Ephemeral

record server_definition =
  name :: string
  description :: "string option"
  command :: command_spec
  env :: "(string \<times> string) list option"
  auth :: "string option"
  tokenCacheDir :: "string option"
  clientName :: "string option"
  oauthRedirectUrl :: "string option"
  oauthCommand :: "string list option"
  source :: "server_source option"
  sources :: "server_source list option"
  lifecycle :: "server_lifecycle option"

section \<open>OAuth discovery: scope resolution (oauth-discovery.ts)\<close>

record resource_metadata =
  authorization_servers :: "string list option"
  rm_scopes_supported :: "string list option"

record as_metadata =
  as_scopes_supported :: "string list option"
  grant_types_supported :: "string list option"

record scope_options =
  resourceMetadata :: "resource_metadata option"
  authorizationServerMetadata :: "as_metadata option"
  fallbackScope :: "string option"

text \<open>
  \<open>options.resourceMetadata?.scopes_supported ?? options.authorizationServerMetadata?.scopes_supported\<close>
\<close>

definition supportedScopes :: "scope_options \<Rightarrow> string list option" where
  "supportedScopes options =
     nullish (Option.bind (resourceMetadata options) rm_scopes_supported)
             (Option.bind (authorizationServerMetadata options) as_scopes_supported)"

definition resolveOAuthScope :: "scope_options \<Rightarrow> string" where
  "resolveOAuthScope options =
     (case supportedScopes options of
        Some scopes \<Rightarrow>
          if length scopes > 0 then
            (if ''mcp:tools'' \<in> set scopes then ''mcp:tools''
             else if ''mcp:connect'' \<in> set scopes then ''mcp:connect''
             else scopes ! 0)
          else (case fallbackScope options of Some f \<Rightarrow> f | None \<Rightarrow> ''mcp:tools'')
      | None \<Rightarrow> (case fallbackScope options of Some f \<Rightarrow> f | None \<Rightarrow> ''mcp:tools''))"

section \<open>Errors, numbers and outcomes of asynchronous calls\<close>

text \<open>
  A JavaScript \<open>number\<close>: every finite double is a real, so a statement about all
  \<open>Num r\<close> covers all finite doubles.
\<close>

datatype js_number = Num real | PosInfinity | NegInfinity | NaN

fun isFinite :: "js_number \<Rightarrow> bool" where
  "isFinite (Num _) = True"
| "isFinite PosInfinity = False"
| "isFinite NegInfinity = False"
| "isFinite NaN = False"

text \<open>\<open>n <= 0\<close>; every comparison with \<open>NaN\<close> is false.\<close>

fun le_zero :: "js_number \<Rightarrow> bool" where
  "le_zero (Num r) = (r \<le> 0)"
| "le_zero PosInfinity = False"
| "le_zero NegInfinity = True"
| "le_zero NaN = False"

text \<open>
  Thrown values: a plain \<open>Error\<close> with its message, a system error with its \<open>code\<close>
  property and message, and the runtime's own \<open>OAuthTimeoutError\<close> with its two
  public fields \<open>serverName\<close> and \<open>timeoutMs\<close>, in this order (its message is
  derived from them and is not stored separately).
\<close>

datatype error =
    Error string
  | SystemError string string
  | OAuthTimeoutError string js_number

fun instanceof_OAuthTimeoutError :: "error \<Rightarrow> bool" where
  "instanceof_OAuthTimeoutError (OAuthTimeoutError _ _) = True"
| "instanceof_OAuthTimeoutError _ = False"

text \<open>
  The result of awaiting a promise: it is fulfilled, it is rejected, or it never settles.
\<close>

datatype 'a outcome = Returned 'a | Threw error | Hangs

definition DEFAULT_OAUTH_CODE_TIMEOUT_MS :: js_number where
  "DEFAULT_OAUTH_CODE_TIMEOUT_MS = Num 60000"

section \<open>Waiting for the authorization code (runtime/oauth.ts)\<close>

text \<open>
  What the event loop delivers while a caller waits for the authorization code, in the
  order it delivers it: the timer set by \<open>setTimeout\<close> fires, the callback handler
  resolves the session's pending promise with a code, or the session rejects it.
\<close>

datatype wait_event = TimerFires | CodeArrives string | SessionRejects error

text \<open>
  \<open>session.waitForAuthorizationCode()\<close>: the session's own promise. No timer belongs
  to it, so a timer event does not settle it.
\<close>

fun session_promise :: "wait_event list \<Rightarrow> string outcome" where
  "session_promise [] = Hangs"
| "session_promise (TimerFires # es) = session_promise es"
| "session_promise (CodeArrives code # es) = Returned code"
| "session_promise (SessionRejects e # es) = Threw e"

text \<open>
  The promise built around the timer: whichever callback runs first settles it, the timer
  with the timeout error, the session's promise with its own result (clearing the timer).
\<close>

fun timer_race :: "error \<Rightarrow> wait_event list \<Rightarrow> string outcome" where
  "timer_race timeoutError [] = Hangs"
| "timer_race timeoutError (TimerFires # es) = Threw timeoutError"
| "timer_race timeoutError (CodeArrives code # es) = Returned code"
| "timer_race timeoutError (SessionRejects e # es) = Threw e"

definition waitForAuthorizationCodeWithTimeout ::
  "wait_event list \<Rightarrow> string option \<Rightarrow> js_number option \<Rightarrow> string outcome" where
  "waitForAuthorizationCodeWithTimeout events sname timeoutMsArg =
     (let timeoutMs = (case timeoutMsArg of None \<Rightarrow> DEFAULT_OAUTH_CODE_TIMEOUT_MS | Some t \<Rightarrow> t)
      in if \<not> isFinite timeoutMs \<or> le_zero timeoutMs then session_promise events
         else
           (let displayName = (case sname of None \<Rightarrow> ''unknown'' | Some n \<Rightarrow> n)
            in timer_race (OAuthTimeoutError displayName timeoutMs) events))"

text \<open>
  \<open>error instanceof Error ? error.message : String(error)\<close>. The message of an
  \<open>OAuthTimeoutError\<close> is built by its constructor from \<open>Math.round(timeoutMs / 1000)\<close>
  (printed in decimal digits, as JavaScript does below \<open>1e21\<close>).
\<close>

definition js_String_int :: "int \<Rightarrow> string" where
  "js_String_int i = (if 0 \<le> i then js_String (nat i) else CHR ''-'' # js_String (nat (- i)))"

fun seconds_text :: "js_number \<Rightarrow> string" where
  "seconds_text (Num r) = js_String_int \<lfloor>r / 1000 + 1 / 2\<rfloor>"
| "seconds_text PosInfinity = ''Infinity''"
| "seconds_text NegInfinity = ''-Infinity''"
| "seconds_text NaN = ''NaN''"

fun error_message :: "error \<Rightarrow> string" where
  "error_message (Error m) = m"
| "error_message (SystemError code m) = m"
| "error_message (OAuthTimeoutError serverName timeoutMs) =
     ''OAuth authorization for '' @ [CHR 0x27] @ serverName @ [CHR 0x27] @ '' timed out after ''
       @ seconds_text timeoutMs @ ''s; aborting.''"

section \<open>Connecting with authorization (runtime/oauth.ts)\<close>

text \<open>
  The effects a client-context build performs, in the order it performs them. Every
  collaborator outside the modelled code (the MCP client, the transports, the session's
  callback listener, the token cache) answers as a function of the effects performed so
  far, so any behaviour of theirs, also one that changes from call to call, is covered.
\<close>

datatype transport_kind = StdioTransport | StreamableHTTP | SSE

datatype effect =
    ReadCachedAccessToken
  | ApplyEnvOverrides
  | RestoreEnv
  | CreateOAuthSession
  | CloseOAuthSession
  | Connect transport_kind
  | CloseTransport transport_kind
  | WaitForAuthorizationCode
  | FinishAuth transport_kind string
  | MaybeEnableOAuth
  | DefinitionPromoted

type_synonym trace = "effect list"

datatype issue_kind = Auth | Offline | HttpIssue | Other

text \<open>
  An \<open>OAuthSession\<close> as \<open>connectWithAuth\<close> sees it. The code guards the call of
  \<open>didStartAuthorization\<close> by its presence, so the member is optional here.
\<close>

record oauth_session =
  didStartAuthorization :: "(trace \<Rightarrow> bool) option"
  waitForAuthorizationCode :: "trace \<Rightarrow> wait_event list"

record transport =
  transportKind :: transport_kind
  finishAuth :: "(trace \<Rightarrow> string \<Rightarrow> error option) option"

text \<open>
  The collaborators. \<open>analyzeConnectionError\<close> is the error classifier
  (error-classifier.ts, not part of the modelled sources): it is a parameter, and every
  result below holds for any classifier. \<open>client_connect\<close> is \<open>client.connect(transport)\<close>:
  \<open>None\<close> when it resolves, \<open>Some e\<close> when it rejects with \<open>e\<close>.
\<close>

record world =
  analyzeConnectionError :: "error \<Rightarrow> issue_kind"
  client_connect :: "trace \<Rightarrow> transport_kind \<Rightarrow> error option"
  readCachedAccessToken :: "server_definition \<Rightarrow> error + string option"
  createOAuthSession :: "trace \<Rightarrow> server_definition \<Rightarrow> error + oauth_session"
  materializeHeaders :: "(string \<times> string) list option \<Rightarrow> string \<Rightarrow> error + (string \<times> string) list option"
  transport_finishAuth :: "transport_kind \<Rightarrow> (trace \<Rightarrow> string \<Rightarrow> error option) option"

definition isUnauthorizedError :: "world \<Rightarrow> error \<Rightarrow> bool" where
  "isUnauthorizedError w e = (analyzeConnectionError w e = Auth)"

record connect_options =
  serverName :: "string option"
  maxAttempts :: "js_number option"
  oauthTimeoutMs :: "js_number option"

definition flow_failed_message :: "string \<Rightarrow> string" where
  "flow_failed_message detail =
     ''OAuth flow failed before a browser authorization could begin. ''
       @ ''This may mean the server rejected dynamic client registration. ''
       @ ''Original error: '' @ detail"

text \<open>
  \<open>attempt > maxAttempts\<close> for the loop's counter and any JavaScript number: no count
  exceeds \<open>Infinity\<close>, and the comparison with \<open>NaN\<close> is false.
\<close>

fun exceeds :: "nat \<Rightarrow> js_number \<Rightarrow> bool" where
  "exceeds attempt (Num r) = (real attempt > r)"
| "exceeds attempt PosInfinity = False"
| "exceeds attempt NegInfinity = True"
| "exceeds attempt NaN = False"

text \<open>
  One pass through the body of the \<open>while (true)\<close> loop of \<open>connectWithAuth\<close>, with
  \<open>attempt\<close> the loop's counter of unauthorized failures before the pass: the pass ends
  the call (\<open>Inl\<close>: the result and the trace), or it ends with the authorization code
  accepted and the loop goes round again (\<open>Inr\<close>: the trace).
\<close>

definition connect_pass ::
  "world \<Rightarrow> transport \<Rightarrow> oauth_session option \<Rightarrow> string option \<Rightarrow> js_number \<Rightarrow> js_number
     \<Rightarrow> nat \<Rightarrow> trace \<Rightarrow> (unit outcome \<times> trace) + trace" where
  "connect_pass w tp session sname maxA timeoutMs attempt tr =
     (let tr1 = tr @ [Connect (transportKind tp)] in
      case client_connect w tr (transportKind tp) of
        None \<Rightarrow> Inl (Returned (), tr1)
      | Some err \<Rightarrow>
          (case session of
             None \<Rightarrow> Inl (Threw err, tr1)
           | Some s \<Rightarrow>
               if \<not> isUnauthorizedError w err then Inl (Threw err, tr1)
               else if exceeds (attempt + 1) maxA then Inl (Threw err, tr1)
               else if (case didStartAuthorization s of None \<Rightarrow> False | Some started \<Rightarrow> \<not> started tr1)
               then Inl (Threw (Error (flow_failed_message (error_message err))), tr1)
               else
                 (let tr2 = tr1 @ [WaitForAuthorizationCode] in
                  case waitForAuthorizationCodeWithTimeout (waitForAuthorizationCode s tr1) sname
                         (Some timeoutMs) of
                    Hangs \<Rightarrow> Inl (Hangs, tr2)
                  | Threw authError \<Rightarrow> Inl (Threw authError, tr2)
                  | Returned code \<Rightarrow>
                      (case finishAuth tp of
                         None \<Rightarrow> Inl (Threw err, tr2)
                       | Some finish \<Rightarrow>
                           (let tr3 = tr2 @ [FinishAuth (transportKind tp) code] in
                            case finish tr2 code of
                              Some authError \<Rightarrow> Inl (Threw authError, tr3)
                            | None \<Rightarrow> Inr tr3)))))"

text \<open>
  The loop. \<open>maxAttempts\<close> is any JavaScript number, and for some of them, in some
  worlds, the loop never ends: the result is \<open>None\<close> then.
\<close>

partial_function (option) connect_loop ::
  "world \<Rightarrow> transport \<Rightarrow> oauth_session option \<Rightarrow> string option \<Rightarrow> js_number \<Rightarrow> js_number
     \<Rightarrow> nat \<Rightarrow> trace \<Rightarrow> (unit outcome \<times> trace) option" where
  "connect_loop w tp session sname maxA timeoutMs attempt tr =
     (case connect_pass w tp session sname maxA timeoutMs attempt tr of
        Inl result \<Rightarrow> Some result
      | Inr tr' \<Rightarrow> connect_loop w tp session sname maxA timeoutMs (Suc attempt) tr')"

definition connectWithAuth ::
  "world \<Rightarrow> transport \<Rightarrow> oauth_session option \<Rightarrow> connect_options \<Rightarrow> trace
     \<Rightarrow> (unit outcome \<times> trace) option" where
  "connectWithAuth w tp session options tr =
     connect_loop w tp session (serverName options)
       (case maxAttempts options of None \<Rightarrow> Num 3 | Some n \<Rightarrow> n)
       (case oauthTimeoutMs options of None \<Rightarrow> DEFAULT_OAUTH_CODE_TIMEOUT_MS | Some t \<Rightarrow> t)
       0 tr"

section \<open>The OAuth session (oauth.ts)\<close>






subsection \<open>Construction: \<open>PersistentOAuthClientProvider.create\<close>\<close>











subsection \<open>The callback handler: \<open>attachServer\<close>\<close>

record callback_request =
  request_pathname :: string
  searchParams :: "(string \<times> string) list"

record http_response =
  statusCode :: nat
  contentType :: "string option"
  body :: string

text \<open>
  What one request does: the response sent (\<open>None\<close> when the handler ends in its
  \<open>catch\<close> without answering), what the pending code promise was settled with (\<open>None\<close>
  when it was left alone or none was pending), and whether a promise is still pending.
\<close>

record callback_result =
  response :: "http_response option"
  settled :: "(error + string) option"
  stillPending :: bool

text \<open>\<open>this.authorizationDeferred?.resolve(v)\<close> and \<open>?.reject(e)\<close>\<close>

definition settle :: "bool \<Rightarrow> error + string \<Rightarrow> (error + string) option" where
  "settle pending v = (if pending then Some v else None)"

text \<open>
  The handler's last \<open>if\<close> chain, which answers by the \<open>code\<close> and \<open>error\<close>
  parameters alone.
\<close>

definition answer_code_or_error :: "bool \<Rightarrow> string option \<Rightarrow> string option \<Rightarrow> callback_result" where
  "answer_code_or_error pending code err =
     (if truthy code then
        \<lparr>response = Some
           \<lparr>statusCode = 200, contentType = Some ''text/html'',
            body = ''<html><body><h1>Authorization successful</h1><p>You can return to the CLI.</p></body></html>''\<rparr>,
         settled = settle pending (Inr (the code)),
         stillPending = False\<rparr>
      else if truthy err then
        \<lparr>response = Some
           \<lparr>statusCode = 400, contentType = Some ''text/html'',
            body = ''<html><body><h1>Authorization failed</h1><p>'' @ the err
                     @ ''</p></body></html>''\<rparr>,
         settled = settle pending (Inl (Error (''OAuth error: '' @ the err))),
         stillPending = False\<rparr>
      else
        \<lparr>response = Some
           \<lparr>statusCode = 400, contentType = None, body = ''Missing authorization code''\<rparr>,
         settled = settle pending (Inl (Error ''Missing authorization code'')),
         stillPending = False\<rparr>)"

text \<open>
  \<open>parsed\<close> is \<open>new URL(req.url, redirectUrl)\<close>, \<open>readState\<close> the outcome of
  \<open>persistence.readState()\<close>; \<open>URLSearchParams.get\<close> returns the first value of a key.
\<close>

definition oauth_callback ::
  "url \<Rightarrow> bool \<Rightarrow> error + string option \<Rightarrow> error + callback_request \<Rightarrow> callback_result" where
  "oauth_callback redirectUrl pending readState parsed =
     (case parsed of
        Inl e \<Rightarrow> \<lparr>response = None, settled = settle pending (Inl e), stillPending = False\<rparr>
      | Inr req \<Rightarrow>
          (let expectedPath = (if pathname redirectUrl = [] then ''/'' else pathname redirectUrl);
               fallbackPath = (if expectedPath = ''/'' then Some ''/callback'' else None)
           in if request_pathname req \<noteq> expectedPath \<and> Some (request_pathname req) \<noteq> fallbackPath
              then \<lparr>response = Some \<lparr>statusCode = 404, contentType = None, body = ''Not found''\<rparr>,
                    settled = None, stillPending = pending\<rparr>
              else
                (let code = map_of (searchParams req) ''code'';
                     err = map_of (searchParams req) ''error'';
                     receivedState = map_of (searchParams req) ''state''
                 in case readState of
                      Inl e \<Rightarrow>
                        \<lparr>response = None, settled = settle pending (Inl e), stillPending = False\<rparr>
                    | Inr expectedState \<Rightarrow>
                        if truthy expectedState \<and> truthy receivedState
                           \<and> receivedState \<noteq> expectedState
                        then
                          \<lparr>response = Some
                             \<lparr>statusCode = 400, contentType = Some ''text/html'',
                              body = ''<html><body><h1>Authorization failed</h1><p>Invalid OAuth state</p></body></html>''\<rparr>,
                           settled = settle pending (Inl (Error ''Invalid OAuth state'')),
                           stillPending = False\<rparr>
                        else answer_code_or_error pending code err)))"

section \<open>OAuth promotion (runtime-oauth-support.ts)\<close>

text \<open>
  The sources hold three versions of \<open>maybeEnableOAuth\<close>. The first is the one in
  \<open>src/runtime-oauth-support.ts\<close>, the module \<open>runtime/transport.ts\<close> imports and calls
  synchronously: it promotes every HTTP definition whose \<open>auth\<close> is not yet \<open>oauth\<close>.
\<close>

definition maybeEnableOAuth :: "server_definition \<Rightarrow> server_definition option" where
  "maybeEnableOAuth definition =
     (if auth definition = Some ''oauth'' then None
      else if \<not> is_http (command definition) then None
      else Some (definition\<lparr>auth := Some ''oauth''\<rparr>))"

definition isAdHocSource :: "server_definition \<Rightarrow> bool" where
  "isAdHocSource definition =
     (case source definition of
        None \<Rightarrow> False
      | Some s \<Rightarrow> kind s = Local \<and> path s = ''<adhoc>'')"

text \<open>
  The result of a \<open>fetch\<close>: it rejects, or it resolves with a response of some status
  whose body parses as JSON of the expected shape (\<open>Some\<close>) or does not (\<open>None\<close>, where
  \<open>response.json()\<close> throws).
\<close>

datatype 'a fetch_result = FetchRejects error | Response nat "'a option"

definition response_ok :: "nat \<Rightarrow> bool" where
  "response_ok status = (200 \<le> status \<and> status \<le> 299)"

text \<open>
  \<open>probeOAuthSupport\<close>: the body is the document's \<open>authorization_servers\<close> member,
  \<open>None\<close> when it is missing or not an array. A fetch that exceeds the five-second
  deadline rejects.
\<close>

definition probeOAuthSupport :: "(string \<Rightarrow> string list option fetch_result) \<Rightarrow> url \<Rightarrow> bool" where
  "probeOAuthSupport fetch u =
     (case fetch (origin u @ ''/.well-known/oauth-protected-resource'') of
        FetchRejects e \<Rightarrow> False
      | Response status json \<Rightarrow>
          if \<not> response_ok status then False
          else (case json of
                  None \<Rightarrow> False
                | Some servers \<Rightarrow>
                    (case servers of None \<Rightarrow> False | Some xs \<Rightarrow> length xs > 0)))"

text \<open>The second version probes the server before it promotes a definition that is not ad hoc.\<close>

definition maybeEnableOAuth_probing ::
  "(string \<Rightarrow> string list option fetch_result) \<Rightarrow> server_definition \<Rightarrow> server_definition option" where
  "maybeEnableOAuth_probing fetch definition =
     (if auth definition = Some ''oauth'' then None
      else (case command definition of
              Stdio c a d \<Rightarrow> None
            | Http u h \<Rightarrow>
                if \<not> isAdHocSource definition \<and> \<not> probeOAuthSupport fetch u then None
                else Some (definition\<lparr>auth := Some ''oauth''\<rparr>)))"

text \<open>The third version promotes ad-hoc definitions only.\<close>

definition maybeEnableOAuth_adhoc_only :: "server_definition \<Rightarrow> server_definition option" where
  "maybeEnableOAuth_adhoc_only definition =
     (if auth definition = Some ''oauth'' then None
      else if \<not> is_http (command definition) then None
      else if \<not> isAdHocSource definition then None
      else Some (definition\<lparr>auth := Some ''oauth''\<rparr>))"

section \<open>Token refresh (oauth-refresh.ts)\<close>

record oauth_tokens =
  access_token :: "string option"
  token_type :: "string option"
  expires_in :: "nat option"
  refresh_token :: "string option"

record client_information =
  client_id :: "string option"
  client_secret :: "string option"

record vault_entry =
  tokens :: "oauth_tokens option"
  clientInfo :: "client_information option"

text \<open>
  What a call of \<open>tryRefreshTokens\<close> did: the token it returned, the endpoints it sent a
  POST to, in order, and the tokens it persisted.
\<close>

record refresh_result =
  refreshed :: "string option"
  requested :: "string list"
  saved :: "oauth_tokens option"

definition no_refresh :: refresh_result where
  "no_refresh = \<lparr>refreshed = None, requested = [], saved = None\<rparr>"

definition possibleEndpoints :: "url \<Rightarrow> string list" where
  "possibleEndpoints serverUrl =
     (if str_includes (hostname serverUrl) ''athom.com'' \<or> str_includes (hostname serverUrl) ''homey''
      then [''https://api.athom.com/oauth2/token''] else [])
     @ [origin serverUrl @ ''/oauth2/token'',
        origin serverUrl @ ''/token'',
        origin serverUrl @ ''/.well-known/oauth-authorization-server'']"

definition refresh_params :: "string \<Rightarrow> string \<Rightarrow> string option \<Rightarrow> (string \<times> string) list" where
  "refresh_params rt cid secret =
     [(''grant_type'', ''refresh_token''), (''refresh_token'', rt), (''client_id'', cid)]
     @ (if truthy secret then [(''client_secret'', the secret)] else [])"

text \<open>\<open>if (!newTokens.refresh_token) { newTokens.refresh_token = refresh_token; }\<close>\<close>

definition keep_refresh_token :: "string \<Rightarrow> oauth_tokens \<Rightarrow> oauth_tokens" where
  "keep_refresh_token rt newTokens =
     (if \<not> truthy (refresh_token newTokens) then newTokens\<lparr>refresh_token := Some rt\<rparr>
      else newTokens)"

text \<open>
  The body of the \<open>try\<close> block for one endpoint: \<open>Some\<close> where it reaches \<open>return\<close>,
  \<open>None\<close> where it reaches a \<open>continue\<close> (also through \<open>catch\<close>). \<open>fetch i\<close> and
  \<open>save i\<close> are the platform's \<open>fetch\<close> and the persistence layer's
  \<open>buildOAuthPersistence\<close> followed by \<open>saveTokens\<close>, at the \<open>i\<close>-th endpoint tried.
\<close>

definition refresh_at ::
  "(nat \<Rightarrow> string \<Rightarrow> (string \<times> string) list \<Rightarrow> oauth_tokens fetch_result)
     \<Rightarrow> (nat \<Rightarrow> oauth_tokens \<Rightarrow> error option) \<Rightarrow> (string \<times> string) list \<Rightarrow> string
     \<Rightarrow> nat \<Rightarrow> string \<Rightarrow> (string \<times> oauth_tokens) option" where
  "refresh_at fetch save params rt i tokenEndpoint =
     (case fetch i tokenEndpoint params of
        FetchRejects e \<Rightarrow> None
      | Response status json \<Rightarrow>
          if \<not> response_ok status then None
          else (case json of
                  None \<Rightarrow> None
                | Some newTokens \<Rightarrow>
                    if \<not> truthy (access_token newTokens) then None
                    else
                      (let newTokens' = keep_refresh_token rt newTokens
                       in case save i newTokens' of
                            Some e \<Rightarrow> None
                          | None \<Rightarrow> Some (the (access_token newTokens'), newTokens'))))"

fun try_endpoints ::
  "(nat \<Rightarrow> string \<Rightarrow> (string \<times> string) list \<Rightarrow> oauth_tokens fetch_result)
     \<Rightarrow> (nat \<Rightarrow> oauth_tokens \<Rightarrow> error option) \<Rightarrow> (string \<times> string) list \<Rightarrow> string
     \<Rightarrow> nat \<Rightarrow> string list \<Rightarrow> refresh_result" where
  "try_endpoints fetch save params rt i [] = no_refresh"
| "try_endpoints fetch save params rt i (tokenEndpoint # rest) =
     (case refresh_at fetch save params rt i tokenEndpoint of
        Some (token, newTokens) \<Rightarrow>
          \<lparr>refreshed = Some token, requested = [tokenEndpoint], saved = Some newTokens\<rparr>
      | None \<Rightarrow>
          (let r = try_endpoints fetch save params rt (Suc i) rest
           in r\<lparr>requested := tokenEndpoint # requested r\<rparr>))"

text \<open>
  \<open>entry\<close> is the outcome of \<open>loadVaultEntry(definition)\<close>; when that call throws,
  \<open>tryRefreshTokens\<close> rejects with the same error.
\<close>

definition tryRefreshTokens ::
  "error + vault_entry option
     \<Rightarrow> (nat \<Rightarrow> string \<Rightarrow> (string \<times> string) list \<Rightarrow> oauth_tokens fetch_result)
     \<Rightarrow> (nat \<Rightarrow> oauth_tokens \<Rightarrow> error option) \<Rightarrow> server_definition \<Rightarrow> error + refresh_result" where
  "tryRefreshTokens entry fetch save definition =
     (case command definition of
        Stdio c a d \<Rightarrow> Inr no_refresh
      | Http serverUrl h \<Rightarrow>
          (case entry of
             Inl e \<Rightarrow> Inl e
           | Inr loaded \<Rightarrow>
               (case Option.bind loaded tokens of
                  None \<Rightarrow> Inr no_refresh
                | Some tk \<Rightarrow>
                    if \<not> truthy (refresh_token tk) then Inr no_refresh
                    else
                      (case Option.bind loaded clientInfo of
                         None \<Rightarrow> Inr no_refresh
                       | Some info \<Rightarrow>
                           if \<not> truthy (client_id info) then Inr no_refresh
                           else
                             Inr (try_endpoints fetch save
                                    (refresh_params (the (refresh_token tk)) (the (client_id info))
                                       (client_secret info))
                                    (the (refresh_token tk)) 0 (possibleEndpoints serverUrl))))))"

section \<open>Building a client context (runtime/transport.ts)\<close>

record create_options =
  maxOAuthAttempts :: "js_number option"
  optOAuthTimeoutMs :: "js_number option"
  allowCachedAuth :: "bool option"

record client_context =
  contextTransport :: transport_kind
  contextDefinition :: server_definition
  oauthSession :: "oauth_session option"

text \<open>\<open>options.maxOAuthAttempts !== 0\<close>\<close>

definition attempts_allowed :: "create_options \<Rightarrow> bool" where
  "attempts_allowed options = (maxOAuthAttempts options \<noteq> Some (Num 0))"

text \<open>
  The cached-token step at the head of \<open>createClientContext\<close>: the definition the rest of
  the function works with. A failure to read the cache is caught and changes nothing.
  Headers are kept as the list of an object's own properties, in insertion order, and
  \<open>'Authorization' in existingHeaders\<close> looks for that very key.
\<close>

definition cachedAuthStep :: "world \<Rightarrow> create_options \<Rightarrow> server_definition \<Rightarrow> server_definition" where
  "cachedAuthStep w options activeDefinition =
     (if allowCachedAuth options = Some True \<and> auth activeDefinition = Some ''oauth''
      then (case command activeDefinition of
              Stdio c a d \<Rightarrow> activeDefinition
            | Http u h \<Rightarrow>
                (case readCachedAccessToken w activeDefinition of
                   Inl e \<Rightarrow> activeDefinition
                 | Inr cached \<Rightarrow>
                     if truthy cached then
                       (let existingHeaders = (case h of None \<Rightarrow> [] | Some hs \<Rightarrow> hs)
                        in if ''Authorization'' \<notin> fst ` set existingHeaders
                           then activeDefinition
                                  \<lparr>command :=
                                     Http u (Some (existingHeaders
                                       @ [(''Authorization'', ''Bearer '' @ the cached)]))\<rparr>
                           else activeDefinition)
                     else activeDefinition))
      else activeDefinition)"

definition cachedAuthTrace :: "create_options \<Rightarrow> server_definition \<Rightarrow> trace" where
  "cachedAuthTrace options definition =
     (if allowCachedAuth options = Some True \<and> auth definition = Some ''oauth''
         \<and> is_http (command definition)
      then [ReadCachedAccessToken] else [])"

text \<open>
  One pass through the body of the \<open>while (true)\<close> loop: it ends the function
  (\<open>Done\<close>) or reaches a \<open>continue\<close> with a promoted definition (\<open>Again\<close>). A pass
  in which \<open>connectWithAuth\<close> never ends has no result (\<open>None\<close>).
\<close>

datatype round_result = Done "client_context outcome" trace | Again server_definition trace

definition close_session :: "oauth_session option \<Rightarrow> trace" where
  "close_session session = (case session of None \<Rightarrow> [] | Some s \<Rightarrow> [CloseOAuthSession])"

definition promote_or_throw :: "server_definition \<Rightarrow> error \<Rightarrow> trace \<Rightarrow> round_result" where
  "promote_or_throw activeDefinition sseError tr =
     (case maybeEnableOAuth activeDefinition of
        Some promoted \<Rightarrow> Again promoted (tr @ [MaybeEnableOAuth, DefinitionPromoted])
      | None \<Rightarrow> Done (Threw sseError) (tr @ [MaybeEnableOAuth]))"

definition connect_options_of :: "create_options \<Rightarrow> server_definition \<Rightarrow> connect_options" where
  "connect_options_of options activeDefinition =
     \<lparr>serverName = Some (name activeDefinition), maxAttempts = maxOAuthAttempts options,
      oauthTimeoutMs = optOAuthTimeoutMs options\<rparr>"

definition sse_settled ::
  "world \<Rightarrow> create_options \<Rightarrow> server_definition \<Rightarrow> oauth_session option
     \<Rightarrow> unit outcome \<times> trace \<Rightarrow> round_result" where
  "sse_settled w options activeDefinition session reached =
     (case reached of
        (Returned u, tr') \<Rightarrow>
          Done (Returned \<lparr>contextTransport = SSE, contextDefinition = activeDefinition,
                          oauthSession = session\<rparr>) tr'
      | (Hangs, tr') \<Rightarrow> Done Hangs tr'
      | (Threw sseError, tr') \<Rightarrow>
          (let tr'' = tr' @ [CloseTransport SSE] @ close_session session
           in if instanceof_OAuthTimeoutError sseError then Done (Threw sseError) tr''
              else if isUnauthorizedError w sseError \<and> attempts_allowed options
              then promote_or_throw activeDefinition sseError tr''
              else Done (Threw sseError) tr''))"

definition sse_fallback ::
  "world \<Rightarrow> create_options \<Rightarrow> server_definition \<Rightarrow> oauth_session option \<Rightarrow> trace
     \<Rightarrow> round_result option" where
  "sse_fallback w options activeDefinition session tr =
     map_option (sse_settled w options activeDefinition session)
       (connectWithAuth w \<lparr>transportKind = SSE, finishAuth = transport_finishAuth w SSE\<rparr> session
          (connect_options_of options activeDefinition) tr)"

definition streamable_settled ::
  "world \<Rightarrow> create_options \<Rightarrow> server_definition \<Rightarrow> oauth_session option
     \<Rightarrow> unit outcome \<times> trace \<Rightarrow> round_result option" where
  "streamable_settled w options activeDefinition session reached =
     (case reached of
        (Returned u, tr2) \<Rightarrow>
          Some (Done (Returned \<lparr>contextTransport = StreamableHTTP,
                                contextDefinition = activeDefinition,
                                oauthSession = session\<rparr>) tr2)
      | (Hangs, tr2) \<Rightarrow> Some (Done Hangs tr2)
      | (Threw primaryError, tr2) \<Rightarrow>
          (let tr3 = tr2 @ [CloseTransport StreamableHTTP];
               unauthorized = isUnauthorizedError w primaryError;
               tr4 = (if unauthorized then tr3 @ close_session session else tr3);
               session' = (if unauthorized then None else session);
               asked = (unauthorized \<and> attempts_allowed options);
               tr5 = (if asked then tr4 @ [MaybeEnableOAuth] else tr4)
           in if asked \<and> maybeEnableOAuth activeDefinition \<noteq> None
              then Some (Again (the (maybeEnableOAuth activeDefinition))
                           (tr5 @ [DefinitionPromoted]))
              else if instanceof_OAuthTimeoutError primaryError
              then Some (Done (Threw primaryError) (tr5 @ close_session session'))
              else sse_fallback w options activeDefinition session' tr5))"

definition http_round ::
  "world \<Rightarrow> create_options \<Rightarrow> server_definition \<Rightarrow> trace \<Rightarrow> round_result option" where
  "http_round w options activeDefinition tr =
     (case command activeDefinition of
        Stdio c a d \<Rightarrow>
          Some (Done (Threw (Error (''Server '' @ [CHR 0x27] @ name activeDefinition @ [CHR 0x27]
                   @ '' is not configured for HTTP transport.''))) tr)
      | Http u h \<Rightarrow>
          (let shouldEstablishOAuth =
                 (auth activeDefinition = Some ''oauth'' \<and> attempts_allowed options)
           in case (if shouldEstablishOAuth
                    then (case createOAuthSession w tr activeDefinition of
                            Inl e \<Rightarrow> Inl e
                          | Inr s \<Rightarrow> Inr (Some s))
                    else Inr None) of
                Inl e \<Rightarrow> Some (Done (Threw e) (tr @ [CreateOAuthSession]))
              | Inr session \<Rightarrow>
                  (let tr1 = (if shouldEstablishOAuth then tr @ [CreateOAuthSession] else tr)
                   in case materializeHeaders w h (name activeDefinition) of
                        Inl e \<Rightarrow> Some (Done (Threw e) tr1)
                      | Inr resolvedHeaders \<Rightarrow>
                          Option.bind
                            (connectWithAuth w
                               \<lparr>transportKind = StreamableHTTP,
                                finishAuth = transport_finishAuth w StreamableHTTP\<rparr> session
                               (connect_options_of options activeDefinition) tr1)
                            (streamable_settled w options activeDefinition session))))"

text \<open>
  The loop: a pass is repeated only after a promotion, which sets \<open>auth\<close> to \<open>oauth\<close>,
  and a definition with that \<open>auth\<close> is never promoted again.
\<close>

function http_loop ::
  "world \<Rightarrow> create_options \<Rightarrow> server_definition \<Rightarrow> trace
     \<Rightarrow> (client_context outcome \<times> trace) option" where
  "http_loop w options activeDefinition tr =
     (case http_round w options activeDefinition tr of
        None \<Rightarrow> None
      | Some (Done result tr') \<Rightarrow> Some (result, tr')
      | Some (Again promoted tr') \<Rightarrow> http_loop w options promoted tr')"
  by pat_completeness auto
termination
proof (relation "measure (\<lambda>(w, options, d, tr). if auth d = Some ''oauth'' then 0 else 1)")
  show "wf (measure (\<lambda>(w, options, d, tr). if auth d = Some ''oauth'' then 0 else (1::nat)))"
    by simp
next
  fix w :: world and options :: create_options and activeDefinition :: server_definition
    and tr :: trace and found :: round_result and promoted :: server_definition and tr' :: trace
  assume "http_round w options activeDefinition tr = Some found" and "found = Again promoted tr'"
  then have again: "http_round w options activeDefinition tr = Some (Again promoted tr')"
    by simp
  have sse: "maybeEnableOAuth activeDefinition = Some promoted"
    if "sse_settled w options activeDefinition session reached = Again promoted tr'"
    for session reached
    using that
    by (auto simp: sse_settled_def promote_or_throw_def Let_def
        split: prod.splits outcome.splits if_splits option.splits)
  have streamable: "maybeEnableOAuth activeDefinition = Some promoted"
    if "streamable_settled w options activeDefinition session reached = Some (Again promoted tr')"
    for session reached
    using that sse
    by (auto simp: streamable_settled_def sse_fallback_def Let_def
        split: prod.splits outcome.splits if_splits)
  have "maybeEnableOAuth activeDefinition = Some promoted"
    using again streamable
    by (auto simp: http_round_def Let_def
        split: command_spec.splits sum.splits if_splits Option.bind_splits)
  then have "auth activeDefinition \<noteq> Some ''oauth'' \<and> auth promoted = Some ''oauth''"
    by (auto simp: maybeEnableOAuth_def split: if_splits)
  then show "((w, options, promoted, tr'), (w, options, activeDefinition, tr))
               \<in> measure (\<lambda>(w, options, d, tr). if auth d = Some ''oauth'' then 0 else 1)"
    by simp
qed

declare http_loop.simps [simp del]

text \<open>
  \<open>createClientContext\<close>: the cached-token step, then, inside \<open>withEnvOverrides\<close>, the
  stdio connection or the HTTP loop. The environment is restored when the body settles.
\<close>

definition restore_env :: "'a outcome \<times> trace \<Rightarrow> 'a outcome \<times> trace" where
  "restore_env r = (case fst r of Hangs \<Rightarrow> r | _ \<Rightarrow> (fst r, snd r @ [RestoreEnv]))"

definition createClientContext ::
  "world \<Rightarrow> create_options \<Rightarrow> server_definition \<Rightarrow> (client_context outcome \<times> trace) option" where
  "createClientContext w options definition =
     (let activeDefinition = cachedAuthStep w options definition;
          tr = cachedAuthTrace options definition @ [ApplyEnvOverrides]
      in map_option restore_env
           (case command activeDefinition of
              Stdio c a d \<Rightarrow>
                (case client_connect w tr StdioTransport of
                   None \<Rightarrow>
                     Some (Returned \<lparr>contextTransport = StdioTransport,
                                     contextDefinition = activeDefinition, oauthSession = None\<rparr>,
                           tr @ [Connect StdioTransport])
                 | Some e \<Rightarrow>
                     Some (Threw e, tr @ [Connect StdioTransport, CloseTransport StdioTransport]))
            | Http u h \<Rightarrow> http_loop w options activeDefinition tr))"

section \<open>Specification-side definitions\<close>

text \<open>
  The scope rule in the specification's words: the advertised scope list is the resource
  metadata's \<open>scopes_supported\<close>, falling back to the authorization server's when the
  resource metadata lists none; an absent list advertises no scope.
\<close>

definition advertised_scopes :: "scope_options \<Rightarrow> string list" where
  "advertised_scopes options =
     (case resourceMetadata options of
        Some r \<Rightarrow>
          (case rm_scopes_supported r of
             Some scopes \<Rightarrow> scopes
           | None \<Rightarrow>
               (case authorizationServerMetadata options of
                  Some a \<Rightarrow> (case as_scopes_supported a of Some scopes \<Rightarrow> scopes | None \<Rightarrow> [])
                | None \<Rightarrow> []))
      | None \<Rightarrow>
          (case authorizationServerMetadata options of
             Some a \<Rightarrow> (case as_scopes_supported a of Some scopes \<Rightarrow> scopes | None \<Rightarrow> [])
           | None \<Rightarrow> []))"

definition resolveOAuthScope_spec :: "scope_options \<Rightarrow> string" where
  "resolveOAuthScope_spec options =
     (if ''mcp:tools'' \<in> set (advertised_scopes options) then ''mcp:tools''
      else if ''mcp:connect'' \<in> set (advertised_scopes options) then ''mcp:connect''
      else if advertised_scopes options \<noteq> [] then hd (advertised_scopes options)
      else (case fallbackScope options of Some f \<Rightarrow> f | None \<Rightarrow> ''mcp:tools''))"

section \<open>Observations on traces and example collaborators\<close>

text \<open>The number of \<open>client.connect\<close> calls in a trace.\<close>

fun connects :: "trace \<Rightarrow> nat" where
  "connects [] = 0"
| "connects (Connect k # es) = Suc (connects es)"
| "connects (e # es) = connects es"

text \<open>
  A server that answers every connection attempt with 401, one that answers with 500, a
  session whose browser flow succeeds at once, and a streamable-HTTP transport.
\<close>

definition unauthorized_world :: world where
  "unauthorized_world =
     \<lparr>analyzeConnectionError = (\<lambda>e. if e = Error ''HTTP 401'' then Auth else Other),
      client_connect = (\<lambda>tr k. Some (Error ''HTTP 401'')),
      readCachedAccessToken = (\<lambda>d. Inr None),
      createOAuthSession = (\<lambda>tr d. Inl (Error ''unused'')),
      materializeHeaders = (\<lambda>h n. Inr h),
      transport_finishAuth = (\<lambda>k. Some (\<lambda>tr code. None))\<rparr>"



definition streamable :: transport where
  "streamable = \<lparr>transportKind = StreamableHTTP, finishAuth = Some (\<lambda>tr code. None)\<rparr>"



text \<open>A trace without any effect of the OAuth machinery.\<close>

definition session_free :: "trace \<Rightarrow> bool" where
  "session_free tr =
     (CreateOAuthSession \<notin> set tr \<and> MaybeEnableOAuth \<notin> set tr \<and> DefinitionPromoted \<notin> set tr)"

text \<open>An HTTP server configured for OAuth, from a configuration file.\<close>

definition linear_server :: server_definition where
  "linear_server =
     \<lparr>name = ''linear'', description = None,
      command = Http \<lparr>protocol = ''https:'', username = [], password = [], hostname = ''mcp.linear.app'', port = None,
                       pathname = ''/mcp'', search = [], hash = []\<rparr> None,
      env = None, auth = Some ''oauth'', tokenCacheDir = None, clientName = None,
      oauthRedirectUrl = None, oauthCommand = None,
      source = Some \<lparr>kind = Local, path = ''/home/user/.mcporter/mcporter.json''\<rparr>,
      sources = None, lifecycle = None\<rparr>"

text \<open>
  The same server with the authorization header set in its configuration, under the name
  \<open>authorization\<close>, and collaborators whose token cache holds a token.
\<close>

definition linear_server_lowercase_key :: server_definition where
  "linear_server_lowercase_key =
     linear_server
       \<lparr>command := Http (http_url (command linear_server))
                    (Some [(''authorization'', ''Bearer configured'')])\<rparr>"

definition cached_world :: world where
  "cached_world = unauthorized_world\<lparr>readCachedAccessToken := (\<lambda>d. Inr (Some ''cached''))\<rparr>"











text \<open>
  The session's default redirect URL, and the handler's path test: the request is on the
  expected path, or on \<open>/callback\<close> when the expected path is \<open>/\<close>.
\<close>

definition loopback_redirect :: url where
  "loopback_redirect =
     \<lparr>protocol = ''http:'', username = [], password = [], hostname = ''127.0.0.1'', port = Some 33418, pathname = ''/'',
      search = [], hash = []\<rparr>"

definition on_expected_path :: "url \<Rightarrow> callback_request \<Rightarrow> bool" where
  "on_expected_path redirectUrl req =
     (let expectedPath = (if pathname redirectUrl = [] then ''/'' else pathname redirectUrl)
      in request_pathname req = expectedPath
         \<or> (expectedPath = ''/'' \<and> request_pathname req = ''/callback''))"

text \<open>
  A configured server without \<open>auth\<close>, an ad-hoc one, a network where the probe fails
  and one where the server advertises an authorization server.
\<close>

definition plain_server :: server_definition where
  "plain_server = linear_server\<lparr>auth := None\<rparr>"

definition adhoc_server :: server_definition where
  "adhoc_server = linear_server\<lparr>auth := None, source := Some \<lparr>kind = Local, path = ''<adhoc>''\<rparr>\<rparr>"

definition offline_probe :: "string \<Rightarrow> string list option fetch_result" where
  "offline_probe requestUrl = FetchRejects (Error ''fetch failed'')"

definition advertising_probe :: "string \<Rightarrow> string list option fetch_result" where
  "advertising_probe requestUrl =
     (if requestUrl = ''https://mcp.linear.app/.well-known/oauth-protected-resource''
      then Response 200 (Some (Some [''https://auth.linear.app'']))
      else Response 404 None)"

text \<open>
  The probe in the specification's words: the well-known document at the server's origin
  is served with a 2xx status and lists at least one authorization server.
\<close>

definition advertises :: "(string \<Rightarrow> string list option fetch_result) \<Rightarrow> url \<Rightarrow> bool" where
  "advertises fetch u =
     (\<exists>status servers.
        fetch (origin u @ ''/.well-known/oauth-protected-resource'')
          = Response status (Some (Some servers))
        \<and> 200 \<le> status \<and> status \<le> 299 \<and> servers \<noteq> [])"

text \<open>
  A server on a Homey hostname, a vault that holds a refresh token and a client
  registration, a network that is down, one where the second candidate endpoint issues
  tokens, and a persistence layer that always succeeds.
\<close>

definition homey_server :: server_definition where
  "homey_server =
     linear_server
       \<lparr>name := ''homey'',
        command := Http \<lparr>protocol = ''https:'', username = [], password = [], hostname = ''mcp.homey.app'', port = None,
                         pathname = ''/mcp'', search = [], hash = []\<rparr> None\<rparr>"

definition stored_tokens :: oauth_tokens where
  "stored_tokens =
     \<lparr>access_token = Some ''old-access'', token_type = Some ''Bearer'',
      expires_in = Some 3600, refresh_token = Some ''old-refresh''\<rparr>"

definition stored_client :: client_information where
  "stored_client = \<lparr>client_id = Some ''client-1'', client_secret = None\<rparr>"

definition stored_entry :: vault_entry where
  "stored_entry = \<lparr>tokens = Some stored_tokens, clientInfo = Some stored_client\<rparr>"

definition offline_token_fetch ::
  "nat \<Rightarrow> string \<Rightarrow> (string \<times> string) list \<Rightarrow> oauth_tokens fetch_result" where
  "offline_token_fetch i tokenEndpoint params = FetchRejects (Error ''fetch failed'')"

definition second_endpoint_fetch ::
  "nat \<Rightarrow> string \<Rightarrow> (string \<times> string) list \<Rightarrow> oauth_tokens fetch_result" where
  "second_endpoint_fetch i tokenEndpoint params =
     (if tokenEndpoint = ''https://mcp.linear.app/token''
      then Response 200 (Some \<lparr>access_token = Some ''new-access'', token_type = Some ''Bearer'',
                                expires_in = Some 3600, refresh_token = None\<rparr>)
      else Response 404 None)"

definition save_ok :: "nat \<Rightarrow> oauth_tokens \<Rightarrow> error option" where
  "save_ok i newTokens = None"

text \<open>
  Where the loop over the candidate endpoints stops, given what one attempt at the
  \<open>j\<close>-th endpoint yields: every endpoint was tried and none succeeded, or the endpoints
  up to the first successful one were tried.
\<close>

definition stops_at ::
  "(nat \<Rightarrow> string \<Rightarrow> (string \<times> oauth_tokens) option) \<Rightarrow> string list \<Rightarrow> refresh_result \<Rightarrow> bool" where
  "stops_at attempt endpoints r =
     ((refreshed r = None \<and> saved r = None \<and> requested r = endpoints
         \<and> (\<forall>j<length endpoints. attempt j (endpoints ! j) = None))
      \<or> (\<exists>k token newTokens.
            k < length endpoints \<and> requested r = take (Suc k) endpoints
            \<and> refreshed r = Some token \<and> saved r = Some newTokens
            \<and> attempt k (endpoints ! k) = Some (token, newTokens)
            \<and> (\<forall>j<k. attempt j (endpoints ! j) = None)))"

text \<open>
  The success criterion in the specification's words, with what the code adds to it: the
  endpoint answers with a 2xx status and JSON whose \<open>access_token\<close> is a non-empty
  string, and the new tokens are persisted without an error.
\<close>

definition accepted ::
  "(nat \<Rightarrow> string \<Rightarrow> (string \<times> string) list \<Rightarrow> oauth_tokens fetch_result)
     \<Rightarrow> (nat \<Rightarrow> oauth_tokens \<Rightarrow> error option) \<Rightarrow> (string \<times> string) list \<Rightarrow> string
     \<Rightarrow> nat \<Rightarrow> string \<Rightarrow> string \<Rightarrow> bool" where
  "accepted fetch save params rt i tokenEndpoint token =
     (\<exists>status json.
        fetch i tokenEndpoint params = Response status (Some json)
        \<and> 200 \<le> status \<and> status \<le> 299
        \<and> access_token json = Some token \<and> token \<noteq> []
        \<and> save i (keep_refresh_token rt json) = None)"

definition stops_at_first ::
  "(nat \<Rightarrow> string \<Rightarrow> string \<Rightarrow> bool) \<Rightarrow> string list \<Rightarrow> refresh_result \<Rightarrow> bool" where
  "stops_at_first ok endpoints r =
     ((refreshed r = None \<and> requested r = endpoints
         \<and> (\<forall>j<length endpoints. \<forall>token. \<not> ok j (endpoints ! j) token))
      \<or> (\<exists>k token.
            k < length endpoints \<and> requested r = take (Suc k) endpoints
            \<and> refreshed r = Some token \<and> ok k (endpoints ! k) token
            \<and> (\<forall>j<k. \<forall>other. \<not> ok j (endpoints ! j) other)))"

section \<open>Verified properties\<close>

subsection \<open>Scope resolution\<close>

lemma supportedScopes_advertised:
  "advertised_scopes options = (case supportedScopes options of None \<Rightarrow> [] | Some scopes \<Rightarrow> scopes)"
  by (simp add: advertised_scopes_def supportedScopes_def nullish_def
           split: option.splits)

text \<open>
  C6: \<open>resolveOAuthScope\<close> returns \<open>mcp:tools\<close> when the advertised scope list
  contains it, otherwise \<open>mcp:connect\<close> when contained, otherwise the first advertised
  scope, and with no advertised scope the fallback scope, \<open>mcp:tools\<close> by default.
  The list of the resource metadata, when present, is the advertised list even if it is
  empty.
\<close>

theorem resolveOAuthScope_refines_spec:
  "resolveOAuthScope options = resolveOAuthScope_spec options"
proof (cases "supportedScopes options")
  case None
  then show ?thesis
    by (simp add: resolveOAuthScope_def resolveOAuthScope_spec_def supportedScopes_advertised)
next
  case (Some scopes)
  show ?thesis
  proof (cases scopes)
    case Nil
    with Some show ?thesis
      by (simp add: resolveOAuthScope_def resolveOAuthScope_spec_def supportedScopes_advertised)
  next
    case (Cons x xs)
    with Some show ?thesis
      by (simp add: resolveOAuthScope_def resolveOAuthScope_spec_def supportedScopes_advertised)
  qed
qed

text \<open>
  C7 as stated fails: an advertised list whose only entry is the empty string makes
  \<open>resolveOAuthScope\<close> return the empty string.
\<close>

theorem resolveOAuthScope_empty_counterexample:
  "resolveOAuthScope
     \<lparr>resourceMetadata =
        Some \<lparr>authorization_servers = None, rm_scopes_supported = Some [[]]\<rparr>,
      authorizationServerMetadata = None, fallbackScope = None\<rparr> = []"
  by (simp add: resolveOAuthScope_def supportedScopes_def nullish_def)

text \<open>
  C7, amended: \<open>resolveOAuthScope\<close> is total (a HOL function), and its result is the
  empty string in exactly two cases: some scope is advertised, the first advertised scope
  is the empty string and neither \<open>mcp:tools\<close> nor \<open>mcp:connect\<close> is advertised; or no
  scope is advertised and the fallback provided is the empty string. For every other
  input, also one with empty strings elsewhere in the list or with no fallback provided,
  the result is a non-empty string.
\<close>

theorem resolveOAuthScope_empty_iff:
  "(resolveOAuthScope options = []) =
     (if advertised_scopes options \<noteq> []
      then hd (advertised_scopes options) = []
           \<and> ''mcp:tools'' \<notin> set (advertised_scopes options)
           \<and> ''mcp:connect'' \<notin> set (advertised_scopes options)
      else fallbackScope options = Some [])"
proof (cases "supportedScopes options")
  case None
  then show ?thesis
    by (cases "fallbackScope options")
       (simp_all add: resolveOAuthScope_def supportedScopes_advertised)
next
  case (Some scopes)
  show ?thesis
  proof (cases scopes)
    case Nil
    with Some show ?thesis
      by (cases "fallbackScope options")
         (simp_all add: resolveOAuthScope_def supportedScopes_advertised)
  next
    case (Cons x xs)
    with Some show ?thesis
      by (auto simp: resolveOAuthScope_def supportedScopes_advertised)
  qed
qed

subsection \<open>The deadline on the authorization code\<close>

lemma session_promise_Threw:
  "session_promise events = Threw e \<Longrightarrow> SessionRejects e \<in> set events"
  by (induction events rule: session_promise.induct) auto

text \<open>
  C10: for a \<open>timeoutMs\<close> that is not a finite positive number,
  \<open>waitForAuthorizationCodeWithTimeout\<close> applies no deadline: its result is the
  session's own pending promise, so it rejects only with an error the session itself
  rejected with, never with a timeout error of its own making. For a finite
  \<open>timeoutMs > 0\<close>, when the timer fires before the session's promise settles, it
  rejects with an \<open>OAuthTimeoutError\<close> carrying the server name (\<open>unknown\<close> when none
  was given) and that \<open>timeoutMs\<close>.
\<close>

theorem waitForAuthorizationCodeWithTimeout_deadline:
  "(\<not> isFinite t \<or> le_zero t \<longrightarrow>
      waitForAuthorizationCodeWithTimeout events sname (Some t) = session_promise events
      \<and> (\<forall>e. waitForAuthorizationCodeWithTimeout events sname (Some t) = Threw e
             \<longrightarrow> SessionRejects e \<in> set events))
   \<and> (isFinite t \<and> \<not> le_zero t \<longrightarrow>
      waitForAuthorizationCodeWithTimeout (TimerFires # rest) sname (Some t)
        = Threw (OAuthTimeoutError (case sname of None \<Rightarrow> ''unknown'' | Some n \<Rightarrow> n) t))"
  by (auto simp: waitForAuthorizationCodeWithTimeout_def dest: session_promise_Threw)

theorem waitForAuthorizationCodeWithTimeout_deadline_witness:
  "waitForAuthorizationCodeWithTimeout [TimerFires, CodeArrives ''abc''] (Some ''x'') (Some NaN)
     = Returned ''abc''
   \<and> waitForAuthorizationCodeWithTimeout [TimerFires, CodeArrives ''abc''] (Some ''x'')
       (Some (Num 1000)) = Threw (OAuthTimeoutError ''x'' (Num 1000))"
  using waitForAuthorizationCodeWithTimeout_deadline
          [of NaN "[TimerFires, CodeArrives ''abc'']" "Some ''x''" "[]"]
        waitForAuthorizationCodeWithTimeout_deadline
          [of "Num 1000" "[]" "Some ''x''" "[CodeArrives ''abc'']"]
  by simp

subsection \<open>Connecting with authorization\<close>

lemma connects_append [simp]: "connects (xs @ ys) = connects xs + connects ys"
  by (induction xs rule: connects.induct) auto











subsection \<open>Building a client context\<close>

lemma connect_loop_no_session:
  "connect_loop w tp None sname maxA timeoutMs attempt tr =
     Some (case client_connect w tr (transportKind tp) of
             None \<Rightarrow> (Returned (), tr @ [Connect (transportKind tp)])
           | Some e \<Rightarrow> (Threw e, tr @ [Connect (transportKind tp)]))"
  by (subst connect_loop.simps) (simp add: connect_pass_def Let_def split: option.splits)

lemma sse_fallback_zero:
  assumes "maxOAuthAttempts options = Some (Num 0)"
  shows "\<exists>r tr'. sse_fallback w options d None tr = Some (Done r tr')
           \<and> (session_free tr \<longrightarrow> session_free tr')
           \<and> (\<forall>ctx. r = Returned ctx \<longrightarrow> oauthSession ctx = None \<and> contextDefinition ctx = d)"
  using assms
  by (auto simp: sse_fallback_def sse_settled_def connectWithAuth_def connect_loop_no_session
        attempts_allowed_def Let_def close_session_def session_free_def
      split: option.splits)

lemma http_round_zero:
  assumes "maxOAuthAttempts options = Some (Num 0)"
  shows "\<exists>r tr'. http_round w options d tr = Some (Done r tr')
           \<and> (session_free tr \<longrightarrow> session_free tr')
           \<and> (\<forall>ctx. r = Returned ctx \<longrightarrow> oauthSession ctx = None \<and> contextDefinition ctx = d)"
proof (cases "command d")
  case (Stdio c a cw)
  then show ?thesis by (simp add: http_round_def)
next
  case (Http u h)
  show ?thesis
  proof (cases "materializeHeaders w h (name d)")
    case (Inl e)
    with Http assms show ?thesis by (simp add: http_round_def attempts_allowed_def)
  next
    case (Inr hs)
    show ?thesis
    proof (cases "client_connect w tr StreamableHTTP")
      case None
      with Http Inr assms show ?thesis
        by (simp add: http_round_def streamable_settled_def connectWithAuth_def
              connect_loop_no_session attempts_allowed_def session_free_def)
    next
      case (Some e)
      let ?tr = "tr @ [Connect StreamableHTTP, CloseTransport StreamableHTTP]"
      from sse_fallback_zero [OF assms, of w d ?tr]
      obtain r tr' where
        "sse_fallback w options d None ?tr = Some (Done r tr')"
        "session_free ?tr \<longrightarrow> session_free tr'"
        "\<forall>ctx. r = Returned ctx \<longrightarrow> oauthSession ctx = None \<and> contextDefinition ctx = d"
        by blast
      with Http Inr Some assms show ?thesis
        by (auto simp: http_round_def streamable_settled_def connectWithAuth_def
              connect_loop_no_session attempts_allowed_def Let_def close_session_def
              session_free_def)
    qed
  qed
qed

lemma http_loop_zero:
  assumes "maxOAuthAttempts options = Some (Num 0)"
  shows "\<exists>r tr'. http_loop w options d tr = Some (r, tr')
           \<and> (session_free tr \<longrightarrow> session_free tr')
           \<and> (\<forall>ctx. r = Returned ctx \<longrightarrow> oauthSession ctx = None \<and> contextDefinition ctx = d)"
proof -
  from http_round_zero [OF assms, of w d tr] obtain r tr' where
    "http_round w options d tr = Some (Done r tr')"
    "session_free tr \<longrightarrow> session_free tr'"
    "\<forall>ctx. r = Returned ctx \<longrightarrow> oauthSession ctx = None \<and> contextDefinition ctx = d"
    by blast
  then show ?thesis
    by (subst http_loop.simps) simp
qed

lemma session_free_restore_env:
  "session_free (snd (restore_env r)) = session_free (snd r)"
  by (cases r) (auto simp: restore_env_def session_free_def split: outcome.splits)

lemma fst_restore_env: "fst (restore_env r) = fst r"
  by (cases r) (auto simp: restore_env_def split: outcome.splits)

text \<open>
  C5: when \<open>maxOAuthAttempts\<close> is 0, a call of \<open>createClientContext\<close> ends, creates no
  OAuth session and never asks for an OAuth promotion, for every definition and whatever
  the server answers, also when it answers 401 on the streamable-HTTP and on the SSE
  attempt; a context that is returned carries no session.
\<close>

theorem createClientContext_zero_attempts:
  assumes "maxOAuthAttempts options = Some (Num 0)"
  shows "\<exists>res tr'. createClientContext w options d = Some (res, tr')
       \<and> CreateOAuthSession \<notin> set tr'
       \<and> MaybeEnableOAuth \<notin> set tr'
       \<and> DefinitionPromoted \<notin> set tr'
       \<and> (\<forall>ctx. res = Returned ctx \<longrightarrow> oauthSession ctx = None)"
proof -
  let ?tr = "cachedAuthTrace options d @ [ApplyEnvOverrides]"
  let ?d = "cachedAuthStep w options d"
  have start: "session_free ?tr"
    by (simp add: session_free_def cachedAuthTrace_def)
  have "\<exists>r tr1. createClientContext w options d = Some (restore_env (r, tr1))
          \<and> session_free tr1 \<and> (\<forall>ctx. r = Returned ctx \<longrightarrow> oauthSession ctx = None)"
  proof (cases "command ?d")
    case (Stdio c a cw)
    then show ?thesis
      using start
      by (cases "client_connect w ?tr StdioTransport")
         (force simp: createClientContext_def Let_def session_free_def)+
  next
    case (Http u h)
    from http_loop_zero [OF assms, of w ?d ?tr] start obtain r tr1 where
      "http_loop w options ?d ?tr = Some (r, tr1)" "session_free tr1"
      "\<forall>ctx. r = Returned ctx \<longrightarrow> oauthSession ctx = None"
      by blast
    with Http show ?thesis
      by (force simp: createClientContext_def Let_def)
  qed
  then obtain r tr1 where run: "createClientContext w options d = Some (restore_env (r, tr1))"
    and free: "session_free tr1" and ctx: "\<forall>ctx. r = Returned ctx \<longrightarrow> oauthSession ctx = None"
    by blast
  obtain res tr' where restored: "restore_env (r, tr1) = (res, tr')"
    by (cases "restore_env (r, tr1)")
  from restored have "res = r"
    using fst_restore_env [of "(r, tr1)"] by simp
  moreover from restored free have "session_free tr'"
    using session_free_restore_env [of "(r, tr1)"] by simp
  ultimately show ?thesis
    using run restored ctx by (simp add: session_free_def)
qed

theorem createClientContext_zero_attempts_witness:
  "\<exists>res tr'. createClientContext unauthorized_world
       \<lparr>maxOAuthAttempts = Some (Num 0), optOAuthTimeoutMs = None, allowCachedAuth = None\<rparr>
       linear_server = Some (res, tr')
     \<and> CreateOAuthSession \<notin> set tr'
     \<and> MaybeEnableOAuth \<notin> set tr'
     \<and> DefinitionPromoted \<notin> set tr'"
proof -
  have "maxOAuthAttempts
          \<lparr>maxOAuthAttempts = Some (Num 0), optOAuthTimeoutMs = None, allowCachedAuth = None\<rparr>
        = Some (Num 0)"
    by simp
  from createClientContext_zero_attempts [OF this, of unauthorized_world linear_server]
  show ?thesis
    by blast
qed

text \<open>
  The whole run at that input: both transports are tried once, both get 401, and the
  second error is thrown.
\<close>

lemma zero_attempts_run:
  "createClientContext unauthorized_world
       \<lparr>maxOAuthAttempts = Some (Num 0), optOAuthTimeoutMs = None, allowCachedAuth = None\<rparr>
       linear_server
   = Some (Threw (Error ''HTTP 401''),
      [ApplyEnvOverrides, Connect StreamableHTTP, CloseTransport StreamableHTTP,
       Connect SSE, CloseTransport SSE, RestoreEnv])"
proof -
  let ?options =
    "\<lparr>maxOAuthAttempts = Some (Num 0), optOAuthTimeoutMs = None, allowCachedAuth = None\<rparr>"
  have step: "cachedAuthStep unauthorized_world ?options linear_server = linear_server"
    by (simp add: cachedAuthStep_def)
  have cmd: "\<exists>u h. command linear_server = Http u h"
    by (simp add: linear_server_def)
  have round: "http_round unauthorized_world ?options linear_server [ApplyEnvOverrides]
      = Some (Done (Threw (Error ''HTTP 401''))
          [ApplyEnvOverrides, Connect StreamableHTTP, CloseTransport StreamableHTTP,
           Connect SSE, CloseTransport SSE])"
    by (simp add: http_round_def streamable_settled_def sse_fallback_def sse_settled_def
          connectWithAuth_def connect_loop_no_session attempts_allowed_def
          unauthorized_world_def linear_server_def Let_def isUnauthorizedError_def
          close_session_def)
  have loop: "http_loop unauthorized_world ?options linear_server [ApplyEnvOverrides]
      = Some (Threw (Error ''HTTP 401''),
          [ApplyEnvOverrides, Connect StreamableHTTP, CloseTransport StreamableHTTP,
           Connect SSE, CloseTransport SSE])"
    by (subst http_loop.simps) (simp add: round)
  from cmd obtain u h where "command linear_server = Http u h" by blast
  then show ?thesis
    by (simp add: createClientContext_def step cachedAuthTrace_def loop restore_env_def)
qed

text \<open>
  The cached-token step and the exact key \<open>Authorization\<close>: with a token from the cache,
  the step appends \<open>Authorization: Bearer <token>\<close> when the headers hold no entry under
  that very key, changing nothing else, and leaves the whole definition as it was when
  they hold one.
\<close>

lemma cachedAuthStep_frame:
  assumes "allowCachedAuth options = Some True"
    and "auth d = Some ''oauth''"
    and "command d = Http u h"
    and "readCachedAccessToken w d = Inr (Some token)"
    and "token \<noteq> []"
  shows "(''Authorization'' \<in> fst ` set (case h of None \<Rightarrow> [] | Some hs \<Rightarrow> hs)
            \<longrightarrow> cachedAuthStep w options d = d)
       \<and> (''Authorization'' \<notin> fst ` set (case h of None \<Rightarrow> [] | Some hs \<Rightarrow> hs)
            \<longrightarrow> cachedAuthStep w options d
                = d\<lparr>command := Http u (Some ((case h of None \<Rightarrow> [] | Some hs \<Rightarrow> hs)
                                   @ [(''Authorization'', ''Bearer '' @ token)]))\<rparr>)"
  using assms by (simp add: cachedAuthStep_def truthy_def Let_def)

text \<open>
  C9 fails on the code: HTTP header names are case-insensitive, and a definition whose
  headers already set the header under the name \<open>authorization\<close> gets a second
  \<open>Authorization: Bearer\<close> entry from the cached-token step, which tests for the key
  \<open>Authorization\<close> only. The same file compares the header name without regard to case
  when it prepares the registration header.
\<close>

theorem cachedAuthStep_lowercase_header:
  "cachedAuthStep cached_world
      \<lparr>maxOAuthAttempts = None, optOAuthTimeoutMs = None, allowCachedAuth = Some True\<rparr>
      linear_server_lowercase_key
   = linear_server_lowercase_key
       \<lparr>command := Http (http_url (command linear_server))
          (Some [(''authorization'', ''Bearer configured''),
                 (''Authorization'', ''Bearer cached'')])\<rparr>"
  by (simp add: cachedAuthStep_def cached_world_def linear_server_lowercase_key_def
        linear_server_def truthy_def)

subsection \<open>The OAuth session\<close>


























text \<open>
  C8 as stated fails: with the state \<open>expected\<close> persisted, a request on the expected
  path whose \<open>state\<close> parameter is the empty string, and so differs from the persisted
  state, is answered with 200 and resolves the pending promise with its code.
\<close>

theorem oauth_callback_empty_state_counterexample:
  "on_expected_path loopback_redirect
      \<lparr>request_pathname = ''/'', searchParams = [(''state'', []), (''code'', ''abc'')]\<rparr>
   \<and> map_of [(''state'', []), (''code'', ''abc'')] ''state'' \<noteq> Some ''expected''
   \<and> oauth_callback loopback_redirect True (Inr (Some ''expected''))
        (Inr \<lparr>request_pathname = ''/'', searchParams = [(''state'', []), (''code'', ''abc'')]\<rparr>)
      = \<lparr>response = Some
           \<lparr>statusCode = 200, contentType = Some ''text/html'',
            body = ''<html><body><h1>Authorization successful</h1><p>You can return to the CLI.</p></body></html>''\<rparr>,
         settled = Some (Inr ''abc''), stillPending = False\<rparr>"
  by (simp add: oauth_callback_def answer_code_or_error_def on_expected_path_def
        loopback_redirect_def truthy_def settle_def Let_def)

text \<open>
  C8, amended: for every request on the expected path (or on \<open>/callback\<close> when the
  expected path is \<open>/\<close>) that carries a non-empty \<open>state\<close> parameter, when a non-empty
  state is persisted and differs from it, the handler responds with status 400 and a
  body containing \<open>Invalid OAuth state\<close>, and rejects the pending authorization-code
  promise, if there is one, instead of resolving it, whether or not a \<open>code\<close> parameter
  is present. In every other case, so when the \<open>state\<close> parameter is absent or empty,
  when no non-empty state is persisted, or when the two are equal, the state check lets
  the request through: it is answered by its \<open>code\<close> and \<open>error\<close> parameters alone, and
  with a non-empty \<open>code\<close> the answer is 200 and the pending promise is resolved with
  the code.
\<close>

theorem oauth_callback_state_check:
  assumes "on_expected_path redirectUrl req"
    and "readState = Inr expectedState"
  shows "(\<forall>expected received.
            expectedState = Some expected \<and> expected \<noteq> []
            \<and> map_of (searchParams req) ''state'' = Some received \<and> received \<noteq> []
            \<and> received \<noteq> expected
            \<longrightarrow> (\<exists>r. response (oauth_callback redirectUrl pending readState (Inr req)) = Some r
                      \<and> statusCode r = 400 \<and> str_includes (body r) ''Invalid OAuth state'')
                \<and> settled (oauth_callback redirectUrl pending readState (Inr req))
                    = (if pending then Some (Inl (Error ''Invalid OAuth state'')) else None)
                \<and> \<not> stillPending (oauth_callback redirectUrl pending readState (Inr req)))
       \<and> (\<not> (truthy expectedState \<and> truthy (map_of (searchParams req) ''state'')
               \<and> map_of (searchParams req) ''state'' \<noteq> expectedState)
            \<longrightarrow> oauth_callback redirectUrl pending readState (Inr req)
                = answer_code_or_error pending (map_of (searchParams req) ''code'')
                    (map_of (searchParams req) ''error''))
       \<and> (truthy code
            \<longrightarrow> (\<exists>r. response (answer_code_or_error pending code err) = Some r
                      \<and> statusCode r = 200)
                \<and> settled (answer_code_or_error pending code err)
                    = (if pending then Some (Inr (the code)) else None))"
proof (intro conjI allI impI)
  fix expected received
  assume mismatch: "expectedState = Some expected \<and> expected \<noteq> []
            \<and> map_of (searchParams req) ''state'' = Some received \<and> received \<noteq> []
            \<and> received \<noteq> expected"
  with assms
  show "\<exists>r. response (oauth_callback redirectUrl pending readState (Inr req)) = Some r
             \<and> statusCode r = 400 \<and> str_includes (body r) ''Invalid OAuth state''"
    and "settled (oauth_callback redirectUrl pending readState (Inr req))
           = (if pending then Some (Inl (Error ''Invalid OAuth state'')) else None)"
    and "\<not> stillPending (oauth_callback redirectUrl pending readState (Inr req))"
    by (auto simp: oauth_callback_def on_expected_path_def truthy_def settle_def Let_def)
next
  assume "\<not> (truthy expectedState \<and> truthy (map_of (searchParams req) ''state'')
               \<and> map_of (searchParams req) ''state'' \<noteq> expectedState)"
  with assms
  show "oauth_callback redirectUrl pending readState (Inr req)
          = answer_code_or_error pending (map_of (searchParams req) ''code'')
              (map_of (searchParams req) ''error'')"
    by (auto simp: oauth_callback_def on_expected_path_def Let_def)
next
  assume "truthy code"
  then show "\<exists>r. response (answer_code_or_error pending code err) = Some r \<and> statusCode r = 200"
    and "settled (answer_code_or_error pending code err)
           = (if pending then Some (Inr (the code)) else None)"
    by (simp_all add: answer_code_or_error_def settle_def)
qed

theorem oauth_callback_state_check_witness:
  "(\<exists>r. response (oauth_callback loopback_redirect True (Inr (Some ''expected''))
            (Inr \<lparr>request_pathname = ''/callback'',
                  searchParams = [(''code'', ''abc''), (''state'', ''forged'')]\<rparr>)) = Some r
        \<and> statusCode r = 400 \<and> str_includes (body r) ''Invalid OAuth state'')
   \<and> settled (oauth_callback loopback_redirect True (Inr (Some ''expected''))
            (Inr \<lparr>request_pathname = ''/callback'',
                  searchParams = [(''code'', ''abc''), (''state'', ''forged'')]\<rparr>))
       = Some (Inl (Error ''Invalid OAuth state''))
   \<and> oauth_callback loopback_redirect True (Inr None)
        (Inr \<lparr>request_pathname = ''/'',
              searchParams = [(''code'', ''abc''), (''state'', ''forged'')]\<rparr>)
       = answer_code_or_error True (Some ''abc'') None
   \<and> settled (answer_code_or_error True (Some ''abc'') None) = Some (Inr ''abc'')"
proof -
  let ?forged = "\<lparr>request_pathname = ''/callback'',
                  searchParams = [(''code'', ''abc''), (''state'', ''forged'')]\<rparr>"
  let ?unchecked = "\<lparr>request_pathname = ''/'',
                  searchParams = [(''code'', ''abc''), (''state'', ''forged'')]\<rparr>"
  have paths: "on_expected_path loopback_redirect ?forged"
    "on_expected_path loopback_redirect ?unchecked"
    by (simp_all add: on_expected_path_def loopback_redirect_def)
  note mismatch = oauth_callback_state_check
    [OF paths(1) refl, where expectedState = "Some ''expected''" and pending = True
       and code = "Some ''abc''" and err = None, THEN conjunct1]
  note skipped = oauth_callback_state_check
    [OF paths(2) refl, where expectedState = None and pending = True and code = "Some ''abc''"
       and err = None, THEN conjunct2]
  have code: "truthy (Some ''abc'')" and state: "\<not> truthy (None :: string option)"
    by (simp_all add: truthy_def)
  from mismatch
  have "(\<exists>r. response (oauth_callback loopback_redirect True (Inr (Some ''expected''))
                 (Inr ?forged)) = Some r
             \<and> statusCode r = 400 \<and> str_includes (body r) ''Invalid OAuth state'')
        \<and> settled (oauth_callback loopback_redirect True (Inr (Some ''expected'')) (Inr ?forged))
            = Some (Inl (Error ''Invalid OAuth state''))"
    by simp
  moreover from skipped state
  have "oauth_callback loopback_redirect True (Inr None) (Inr ?unchecked)
          = answer_code_or_error True (Some ''abc'') None"
    by simp
  moreover from skipped code
  have "settled (answer_code_or_error True (Some ''abc'') None) = Some (Inr ''abc'')"
    by simp
  ultimately show ?thesis
    by blast
qed

subsection \<open>OAuth promotion\<close>

lemma probeOAuthSupport_advertises: "probeOAuthSupport fetch u = advertises fetch u"
  by (auto simp: probeOAuthSupport_def advertises_def response_ok_def
      split: fetch_result.splits option.splits)

text \<open>
  C2 as stated fails for the \<open>maybeEnableOAuth\<close> that \<open>createClientContext\<close> calls: a
  configured HTTP server that is not ad hoc, and whose probe would fail, is promoted.
\<close>

theorem maybeEnableOAuth_promotes_without_probe_counterexample:
  "auth plain_server \<noteq> Some ''oauth'' \<and> is_http (command plain_server)
   \<and> \<not> isAdHocSource plain_server
   \<and> \<not> probeOAuthSupport offline_probe (http_url (command plain_server))
   \<and> maybeEnableOAuth plain_server = Some (plain_server\<lparr>auth := Some ''oauth''\<rparr>)"
  by (simp add: plain_server_def linear_server_def isAdHocSource_def probeOAuthSupport_def
        offline_probe_def maybeEnableOAuth_def)

text \<open>
  C2, amended: for a definition whose \<open>auth\<close> is not yet \<open>oauth\<close> and whose command is
  HTTP, the probing version of \<open>maybeEnableOAuth\<close> returns the promoted definition
  exactly when the source is the ad-hoc sentinel or the probe of
  \<open>/.well-known/oauth-protected-resource\<close> at the server's origin advertises at least one
  authorization server, and nothing when the probe fails or advertises none; the ad-hoc
  version promotes exactly the ad-hoc definitions; and the version in
  \<open>src/runtime-oauth-support.ts\<close> promotes every such definition, without a probe.
\<close>

theorem maybeEnableOAuth_variants:
  assumes "auth d \<noteq> Some ''oauth''" and "command d = Http u h"
  shows "maybeEnableOAuth_probing fetch d
           = (if isAdHocSource d \<or> advertises fetch u then Some (d\<lparr>auth := Some ''oauth''\<rparr>)
              else None)
       \<and> maybeEnableOAuth_adhoc_only d
           = (if isAdHocSource d then Some (d\<lparr>auth := Some ''oauth''\<rparr>) else None)
       \<and> maybeEnableOAuth d = Some (d\<lparr>auth := Some ''oauth''\<rparr>)"
  using assms
  by (simp add: maybeEnableOAuth_probing_def maybeEnableOAuth_adhoc_only_def
        maybeEnableOAuth_def probeOAuthSupport_advertises)

theorem maybeEnableOAuth_variants_witness:
  "maybeEnableOAuth_probing offline_probe plain_server = None
   \<and> maybeEnableOAuth_probing advertising_probe plain_server
       = Some (plain_server\<lparr>auth := Some ''oauth''\<rparr>)
   \<and> maybeEnableOAuth_probing offline_probe adhoc_server
       = Some (adhoc_server\<lparr>auth := Some ''oauth''\<rparr>)
   \<and> maybeEnableOAuth plain_server = Some (plain_server\<lparr>auth := Some ''oauth''\<rparr>)"
proof -
  let ?u = "http_url (command linear_server)"
  have plain: "auth plain_server \<noteq> Some ''oauth''" "command plain_server = Http ?u None"
    by (simp_all add: plain_server_def linear_server_def)
  have adhoc: "auth adhoc_server \<noteq> Some ''oauth''" "command adhoc_server = Http ?u None"
    by (simp_all add: adhoc_server_def linear_server_def)
  have kinds: "\<not> isAdHocSource plain_server" "isAdHocSource adhoc_server"
    by (simp_all add: isAdHocSource_def plain_server_def adhoc_server_def linear_server_def)
  have off: "\<not> advertises offline_probe ?u"
    by (simp add: advertises_def offline_probe_def)
  have "advertising_probe (origin ?u @ ''/.well-known/oauth-protected-resource'')
          = Response 200 (Some (Some [''https://auth.linear.app'']))"
    by (simp add: advertising_probe_def origin_def host_of_def linear_server_def)
  then have on: "advertises advertising_probe ?u"
    by (simp add: advertises_def)
  from maybeEnableOAuth_variants [OF plain, of offline_probe]
       maybeEnableOAuth_variants [OF plain, of advertising_probe]
       maybeEnableOAuth_variants [OF adhoc, of offline_probe] kinds off on
  show ?thesis by simp
qed

subsection \<open>Token refresh\<close>

lemma try_endpoints_stops:
  "stops_at (\<lambda>j. refresh_at fetch save params rt (i + j)) endpoints
     (try_endpoints fetch save params rt i endpoints)"
proof (induction endpoints arbitrary: i)
  case Nil
  show ?case by (simp add: stops_at_def no_refresh_def)
next
  case (Cons ep rest)
  show ?case
  proof (cases "refresh_at fetch save params rt i ep")
    case (Some found)
    then show ?thesis
      by (cases found) (auto simp: stops_at_def)
  next
    case None
    let ?r = "try_endpoints fetch save params rt (Suc i) rest"
    from Cons [of "Suc i"]
    have "stops_at (\<lambda>j. refresh_at fetch save params rt (Suc i + j)) rest ?r" .
    then consider
      (all) "refreshed ?r = None" "saved ?r = None" "requested ?r = rest"
        "\<forall>j<length rest. refresh_at fetch save params rt (Suc i + j) (rest ! j) = None"
      | (hit) k token newTokens where
        "k < length rest" "requested ?r = take (Suc k) rest"
        "refreshed ?r = Some token" "saved ?r = Some newTokens"
        "refresh_at fetch save params rt (Suc i + k) (rest ! k) = Some (token, newTokens)"
        "\<forall>j<k. refresh_at fetch save params rt (Suc i + j) (rest ! j) = None"
      by (auto simp: stops_at_def)
    then show ?thesis
    proof cases
      case all
      have "\<forall>j<length (ep # rest). refresh_at fetch save params rt (i + j) ((ep # rest) ! j) = None"
      proof (intro allI impI)
        fix j assume "j < length (ep # rest)"
        then show "refresh_at fetch save params rt (i + j) ((ep # rest) ! j) = None"
          using None all(4) by (cases j) auto
      qed
      with None all(1-3) show ?thesis
        by (simp add: stops_at_def Let_def)
    next
      case hit
      have earlier: "\<forall>j<Suc k. refresh_at fetch save params rt (i + j) ((ep # rest) ! j) = None"
      proof (intro allI impI)
        fix j assume "j < Suc k"
        then show "refresh_at fetch save params rt (i + j) ((ep # rest) ! j) = None"
          using None hit(6) by (cases j) auto
      qed
      have "\<exists>k' token' newTokens'.
              k' < length (ep # rest)
              \<and> requested (try_endpoints fetch save params rt i (ep # rest))
                  = take (Suc k') (ep # rest)
              \<and> refreshed (try_endpoints fetch save params rt i (ep # rest)) = Some token'
              \<and> saved (try_endpoints fetch save params rt i (ep # rest)) = Some newTokens'
              \<and> refresh_at fetch save params rt (i + k') ((ep # rest) ! k') = Some (token', newTokens')
              \<and> (\<forall>j<k'. refresh_at fetch save params rt (i + j) ((ep # rest) ! j) = None)"
        apply (rule exI [of _ "Suc k"], rule exI [of _ token], rule exI [of _ newTokens])
        using None hit(1-5) earlier by (simp add: Let_def)
      then show ?thesis
        by (simp add: stops_at_def)
    qed
  qed
qed


lemma access_token_keep_refresh_token:
  "access_token (keep_refresh_token rt json) = access_token json"
  by (simp add: keep_refresh_token_def)

lemma refresh_at_Some:
  "refresh_at fetch save params rt i ep = Some (token, newTokens)
     \<Longrightarrow> accepted fetch save params rt i ep token"
  by (auto simp: refresh_at_def accepted_def response_ok_def truthy_def Let_def
        access_token_keep_refresh_token
      split: fetch_result.splits option.splits if_splits)

lemma refresh_at_None:
  "refresh_at fetch save params rt i ep = None \<Longrightarrow> \<not> accepted fetch save params rt i ep token"
  by (auto simp: refresh_at_def accepted_def response_ok_def truthy_def Let_def
      split: fetch_result.splits option.splits if_splits)

lemma stops_at_first_accepted:
  assumes "stops_at (refresh_at fetch save params rt) endpoints r"
  shows "stops_at_first (accepted fetch save params rt) endpoints r"
proof -
  from assms consider
    (all) "refreshed r = None" "requested r = endpoints"
      "\<forall>j<length endpoints. refresh_at fetch save params rt j (endpoints ! j) = None"
    | (hit) k token newTokens where
      "k < length endpoints" "requested r = take (Suc k) endpoints" "refreshed r = Some token"
      "refresh_at fetch save params rt k (endpoints ! k) = Some (token, newTokens)"
      "\<forall>j<k. refresh_at fetch save params rt j (endpoints ! j) = None"
    by (auto simp: stops_at_def)
  then show ?thesis
  proof cases
    case all
    then show ?thesis
      by (simp add: stops_at_first_def refresh_at_None)
  next
    case hit
    from hit(4) have "accepted fetch save params rt k (endpoints ! k) token"
      by (rule refresh_at_Some)
    moreover from hit(5)
    have "\<forall>j<k. \<forall>other. \<not> accepted fetch save params rt j (endpoints ! j) other"
      by (simp add: refresh_at_None)
    ultimately have "\<exists>k token.
            k < length endpoints \<and> requested r = take (Suc k) endpoints
            \<and> refreshed r = Some token \<and> accepted fetch save params rt k (endpoints ! k) token
            \<and> (\<forall>j<k. \<forall>other. \<not> accepted fetch save params rt j (endpoints ! j) other)"
      using hit(1-3) by blast
    then show ?thesis
      by (simp add: stops_at_first_def)
  qed
qed

text \<open>
  C1 as stated fails: for a server whose hostname contains \<open>homey\<close> the first endpoint
  tried is \<open>https://api.athom.com/oauth2/token\<close>, which is not at the server's origin,
  and four endpoints are tried.
\<close>

theorem tryRefreshTokens_homey_counterexample:
  "origin (http_url (command homey_server)) = ''https://mcp.homey.app''
   \<and> tryRefreshTokens (Inr (Some stored_entry)) offline_token_fetch save_ok homey_server
     = Inr \<lparr>refreshed = None,
            requested = [''https://api.athom.com/oauth2/token'',
                         ''https://mcp.homey.app/oauth2/token'',
                         ''https://mcp.homey.app/token'',
                         ''https://mcp.homey.app/.well-known/oauth-authorization-server''],
            saved = None\<rparr>"
  by (simp add: tryRefreshTokens_def homey_server_def linear_server_def stored_entry_def
        stored_tokens_def stored_client_def truthy_def possibleEndpoints_def origin_def host_of_def refresh_at_def
        offline_token_fetch_def no_refresh_def Let_def)

text \<open>
  C1, amended: for an HTTP server definition with a persisted \<open>refresh_token\<close> and
  \<open>client_id\<close>, \<open>tryRefreshTokens\<close> tries its candidate endpoints in order and stops at
  the first one that answers 2xx with JSON holding a non-empty \<open>access_token\<close> and
  whose tokens are persisted, returning that token; it tries them all and returns
  nothing when none does. For a hostname containing neither \<open>athom.com\<close> nor \<open>homey\<close>
  the candidates are \<open>/oauth2/token\<close>, \<open>/token\<close> and
  \<open>/.well-known/oauth-authorization-server\<close> at the server's origin, in this order; for
  the other hostnames \<open>https://api.athom.com/oauth2/token\<close> precedes these three.
\<close>

theorem tryRefreshTokens_order:
  assumes "command d = Http u h"
    and "entry = Inr (Some v)" and "tokens v = Some tk"
    and "refresh_token tk = Some rt" and "rt \<noteq> []"
    and "clientInfo v = Some info" and "client_id info = Some cid" and "cid \<noteq> []"
  shows "(\<exists>r. tryRefreshTokens entry fetch save d = Inr r
            \<and> stops_at_first (accepted fetch save (refresh_params rt cid (client_secret info)) rt)
                  (possibleEndpoints u) r)
       \<and> (\<not> str_includes (hostname u) ''athom.com'' \<and> \<not> str_includes (hostname u) ''homey''
            \<longrightarrow> possibleEndpoints u
                = [origin u @ ''/oauth2/token'', origin u @ ''/token'',
                   origin u @ ''/.well-known/oauth-authorization-server''])
       \<and> (str_includes (hostname u) ''athom.com'' \<or> str_includes (hostname u) ''homey''
            \<longrightarrow> possibleEndpoints u
                = [''https://api.athom.com/oauth2/token'',
                   origin u @ ''/oauth2/token'', origin u @ ''/token'',
                   origin u @ ''/.well-known/oauth-authorization-server''])"
proof (intro conjI)
  let ?params = "refresh_params rt cid (client_secret info)"
  have run: "tryRefreshTokens entry fetch save d
      = Inr (try_endpoints fetch save ?params rt 0 (possibleEndpoints u))"
    using assms by (simp add: tryRefreshTokens_def truthy_def)
  from try_endpoints_stops [of fetch save ?params rt 0 "possibleEndpoints u"]
  have "stops_at (refresh_at fetch save ?params rt) (possibleEndpoints u)
          (try_endpoints fetch save ?params rt 0 (possibleEndpoints u))"
    by simp
  then have "stops_at_first (accepted fetch save ?params rt) (possibleEndpoints u)
          (try_endpoints fetch save ?params rt 0 (possibleEndpoints u))"
    by (rule stops_at_first_accepted)
  with run show "\<exists>r. tryRefreshTokens entry fetch save d = Inr r
            \<and> stops_at_first (accepted fetch save ?params rt) (possibleEndpoints u) r"
    by blast
qed (simp_all add: possibleEndpoints_def)

text \<open>
  A run in which the first endpoint answers 404 and the second issues a token without a
  new refresh token: two requests, and the old refresh token is kept in what is saved.
\<close>

lemma second_endpoint_run:
  "tryRefreshTokens (Inr (Some stored_entry)) second_endpoint_fetch save_ok linear_server
     = Inr \<lparr>refreshed = Some ''new-access'',
            requested = [''https://mcp.linear.app/oauth2/token'', ''https://mcp.linear.app/token''],
            saved = Some \<lparr>access_token = Some ''new-access'', token_type = Some ''Bearer'',
                          expires_in = Some 3600, refresh_token = Some ''old-refresh''\<rparr>\<rparr>"
  by (simp add: tryRefreshTokens_def linear_server_def stored_entry_def stored_tokens_def
        stored_client_def truthy_def possibleEndpoints_def origin_def host_of_def refresh_at_def
        keep_refresh_token_def second_endpoint_fetch_def save_ok_def response_ok_def
        no_refresh_def Let_def)

theorem tryRefreshTokens_order_witness:
  "(\<exists>r. tryRefreshTokens (Inr (Some stored_entry)) second_endpoint_fetch save_ok linear_server
          = Inr r
        \<and> stops_at_first
             (accepted second_endpoint_fetch save_ok
                (refresh_params ''old-refresh'' ''client-1'' None) ''old-refresh'')
             (possibleEndpoints (http_url (command linear_server))) r)
   \<and> possibleEndpoints (http_url (command linear_server))
       = [''https://mcp.linear.app/oauth2/token'', ''https://mcp.linear.app/token'',
          ''https://mcp.linear.app/.well-known/oauth-authorization-server'']"
proof -
  let ?u = "http_url (command linear_server)"
  have cmd: "command linear_server = Http ?u None"
    by (simp add: linear_server_def)
  have host: "hostname ?u = ''mcp.linear.app''" and org: "origin ?u = ''https://mcp.linear.app''"
    by (simp_all add: linear_server_def origin_def host_of_def)
  have tk: "tokens stored_entry = Some stored_tokens"
    and info: "clientInfo stored_entry = Some stored_client"
    by (simp_all add: stored_entry_def)
  have rt: "refresh_token stored_tokens = Some ''old-refresh''" "''old-refresh'' \<noteq> []"
    by (simp_all add: stored_tokens_def)
  have cid: "client_id stored_client = Some ''client-1''" "''client-1'' \<noteq> []"
    and secret: "client_secret stored_client = None"
    by (simp_all add: stored_client_def)
  note order = tryRefreshTokens_order
    [OF cmd refl tk rt info cid, of second_endpoint_fetch save_ok, unfolded secret host org]
  have "\<not> str_includes ''mcp.linear.app'' ''athom.com'' \<and> \<not> str_includes ''mcp.linear.app'' ''homey''"
    by simp
  with order have "possibleEndpoints ?u
      = [''https://mcp.linear.app/oauth2/token'', ''https://mcp.linear.app/token'',
         ''https://mcp.linear.app/.well-known/oauth-authorization-server'']"
    by simp
  with order show ?thesis
    by blast
qed


end
